theory Spec2Isabelle
  imports Complex_Main "HOL-Library.Sublist" "HOL-Library.Multiset"
begin

section \<open>Data model\<close>

text \<open>
  A hypnogram is a pandas DataFrame whose rows are bouts with the columns
  \<open>state\<close>, \<open>start_time\<close>, \<open>end_time\<close> and \<open>duration\<close>.  The time axis is a type
  parameter: \<open>FloatHypnogram\<close> stores seconds, \<open>DatetimeHypnogram\<close> stores
  timestamps and timedeltas, which are 64-bit nanosecond counts and are modelled as
  \<open>int\<close>.  \<open>duration\<close> is a column of its own; nothing in the code ties it to
  \<open>end_time - start_time\<close>.
\<close>

record ('t, 'd) bout =
  state :: string
  start_time :: 't
  end_time :: 't
  duration :: 'd

text \<open>
  A frame is the sequence of rows, each with its index label.  A freshly built frame
  carries pandas' default \<open>RangeIndex\<close> \<open>0, 1, ..\<close>; boolean-mask selection and
  \<open>iloc\<close> keep the labels of the rows they select.
\<close>

type_synonym ('t, 'd) frame = "(int \<times> ('t, 'd) bout) list"

type_synonym dt_bout = "(int, int) bout"
type_synonym dt_frame = "(int, int) frame"


datatype error = AttributeError | AssertionError | ZeroDivisionError | IndexError

section \<open>Validation\<close>

text \<open>
  \<open>_validate\<close> tests the column names of the frame; \<open>__init__\<close> only forwards to
  the DataFrame constructor, which accepts any set of columns, and never calls
  \<open>_validate\<close>.  Both are modelled on the list of column names.
\<close>

definition required_columns :: "string list" where
  "required_columns = [''state'', ''start_time'', ''end_time'', ''duration'']"

definition validate :: "string list \<Rightarrow> error + unit" where
  "validate columns =
     (if \<not> (\<forall>c \<in> set required_columns. c \<in> set columns) then Inl AttributeError
      else Inr ())"

definition Hypnogram_init :: "string list \<Rightarrow> error + string list" where
  "Hypnogram_init columns = Inr columns"

section \<open>Time queries\<close>

definition times_in_bout :: "('t::linorder) list \<Rightarrow> ('t, 'd) bout \<Rightarrow> bool list" where
  "times_in_bout ts b = map (\<lambda>t. t \<ge> start_time b \<and> t \<le> end_time b) ts"

text \<open>\<open>arr[mask] = v\<close>: overwrite the positions where the mask is true.\<close>

definition assign_mask :: "'a list \<Rightarrow> bool list \<Rightarrow> 'a \<Rightarrow> 'a list" where
  "assign_mask arr msk v = map (\<lambda>(x, c). if c then v else x) (zip arr msk)"



fun covers_time_loop :: "('t::linorder, 'd) frame \<Rightarrow> 't list \<Rightarrow> bool list \<Rightarrow> bool list" where
  "covers_time_loop [] ts covered = covered"
| "covers_time_loop (row # rest) ts covered =
     covers_time_loop rest ts (assign_mask covered (times_in_bout ts (snd row)) True)"

definition covers_time :: "('t::linorder, 'd) frame \<Rightarrow> 't list \<Rightarrow> bool list" where
  "covers_time self ts = covers_time_loop self ts (replicate (length ts) False)"

text \<open>
  The specification's wording of \<open>label\<close>: the state of the last bout, in sequence
  order, whose closed interval contains the time; the empty label when there is none.
\<close>

definition contains_time :: "('t::linorder) \<Rightarrow> int \<times> ('t, 'd) bout \<Rightarrow> bool" where
  "contains_time t row = (start_time (snd row) \<le> t \<and> t \<le> end_time (snd row))"


section \<open>Filters\<close>

text \<open>\<open>self[msk]\<close> and \<open>self.loc[msk]\<close> with a boolean column: the rows where it is true.\<close>

definition loc_mask :: "'r list \<Rightarrow> bool list \<Rightarrow> 'r list" where
  "loc_mask self msk = map fst (filter snd (zip self msk))"

definition keep_states :: "('t, 'd) frame \<Rightarrow> string list \<Rightarrow> ('t, 'd) frame" where
  "keep_states self states = loc_mask self (map (\<lambda>row. state (snd row) \<in> set states) self)"

fun cumsum_from :: "int \<Rightarrow> int list \<Rightarrow> int list" where
  "cumsum_from acc [] = []"
| "cumsum_from acc (x # xs) = (acc + x) # cumsum_from (acc + x) xs"

definition cumsum :: "int list \<Rightarrow> int list" where
  "cumsum xs = cumsum_from 0 xs"

definition keep_first :: "dt_frame \<Rightarrow> int \<Rightarrow> dt_frame" where
  "keep_first self cumulative_duration =
     (let keep = map (\<lambda>s. s \<le> cumulative_duration) (cumsum (map (\<lambda>row. duration (snd row)) self))
      in loc_mask self keep)"

definition keep_last :: "dt_frame \<Rightarrow> int \<Rightarrow> dt_frame" where
  "keep_last self cumulative_duration =
     (let keep = map (\<lambda>s. s \<le> cumulative_duration)
                   (rev (cumsum (rev (map (\<lambda>row. duration (snd row)) self))))
      in loc_mask self keep)"

definition keep_longer :: "dt_frame \<Rightarrow> int \<Rightarrow> dt_frame" where
  "keep_longer self d = loc_mask self (map (\<lambda>row. duration (snd row) > d) self)"

text \<open>
  \<open>keep_between\<close>: \<open>indexer_between_time\<close> compares the microsecond of the day of
  each timestamp with the two bounds (both included) and joins the comparisons with
  "and", or with "or" when the window wraps around midnight; it returns positions.
  The bounds are taken as microseconds of the day.  \<open>iloc\<close> raises \<open>IndexError\<close> on
  a position outside the frame.
\<close>

definition time_micros :: "int \<Rightarrow> int" where
  "time_micros t = (t mod (86400 * 1000000000)) div 1000"

definition indexer_between_time :: "int list \<Rightarrow> int \<Rightarrow> int \<Rightarrow> nat list" where
  "indexer_between_time stamps start_micros end_micros =
     filter (\<lambda>p. if start_micros \<le> end_micros
                  then start_micros \<le> time_micros (stamps ! p) \<and> time_micros (stamps ! p) \<le> end_micros
                  else start_micros \<le> time_micros (stamps ! p) \<or> time_micros (stamps ! p) \<le> end_micros)
       [0..<length stamps]"

definition intersect1d :: "nat list \<Rightarrow> nat list \<Rightarrow> nat list" where
  "intersect1d a b = sort (remdups (filter (\<lambda>x. x \<in> set b) a))"

definition iloc :: "'r list \<Rightarrow> nat list \<Rightarrow> error + 'r list" where
  "iloc self ps =
     (if \<exists>p \<in> set ps. \<not> p < length self then Inl IndexError else Inr (map (\<lambda>p. self ! p) ps))"

definition keep_between :: "dt_frame \<Rightarrow> int \<Rightarrow> int \<Rightarrow> error + dt_frame" where
  "keep_between self start_micros end_micros =
     (let keep = intersect1d
                   (indexer_between_time (map (\<lambda>row. start_time (snd row)) self) start_micros end_micros)
                   (indexer_between_time (map (\<lambda>row. end_time (snd row)) self) start_micros end_micros)
      in iloc self keep)"


section \<open>Gaps\<close>

text \<open>A gap as \<open>get_gaps\<close> reports it: a dict with the keys \<open>start_time\<close>, \<open>end_time\<close>, \<open>duration\<close>.\<close>

record gap =
  gap_start_time :: int
  gap_end_time :: int
  gap_duration :: int

definition get_gaps :: "dt_frame \<Rightarrow> int \<Rightarrow> gap list" where
  "get_gaps self tolerance =
     concat (map (\<lambda>i.
        let current_bout_end = end_time (snd (self ! i));
            next_bout_start = start_time (snd (self ! (i + 1)));
            gap = next_bout_start - current_bout_end
        in if gap > tolerance
           then [\<lparr>gap_start_time = current_bout_end, gap_end_time = next_bout_start,
                  gap_duration = gap\<rparr>]
           else [])
       [0..<length self - 1])"

text \<open>\<open>gap.update({"state": fill_state})\<close> turns the dict into a row.\<close>

definition fill_row :: "string \<Rightarrow> gap \<Rightarrow> dt_bout" where
  "fill_row fill_state g =
     \<lparr>state = fill_state, start_time = gap_start_time g, end_time = gap_end_time g,
      duration = gap_duration g\<rparr>"


text \<open>
  The specification's wording of \<open>findGaps\<close>: for each pair of consecutive bouts the
  gap \<open>next.start_time - current.end_time\<close> is reported iff it exceeds the tolerance.
\<close>

definition gap_between :: "dt_bout \<times> dt_bout \<Rightarrow> gap" where
  "gap_between pair =
     \<lparr>gap_start_time = end_time (fst pair), gap_end_time = start_time (snd pair),
      gap_duration = start_time (snd pair) - end_time (fst pair)\<rparr>"

definition get_gaps_spec :: "dt_frame \<Rightarrow> int \<Rightarrow> gap list" where
  "get_gaps_spec self tolerance =
     map gap_between
       (filter (\<lambda>pair. start_time (snd pair) - end_time (fst pair) > tolerance)
          (zip (map snd self) (tl (map snd self))))"


fun interleaved :: "dt_bout list \<Rightarrow> int \<Rightarrow> string \<Rightarrow> dt_bout list" where
  "interleaved (b # b' # rest) tolerance fill_state =
     b # (if start_time b' - end_time b > tolerance
          then [fill_row fill_state (gap_between (b, b'))] else [])
       @ interleaved (b' # rest) tolerance fill_state"
| "interleaved bs tolerance fill_state = bs"

section \<open>Consolidated periods\<close>

text \<open>
  \<open>self.loc[i:j]\<close> on an increasing index: the rows whose label lies in \<open>[i, j]\<close>,
  both ends included.  The index of a frame built by a loader is a \<open>RangeIndex\<close>, and
  \<open>keep_states\<close> keeps it increasing.
\<close>

definition loc_slice :: "('t, 'd) frame \<Rightarrow> int \<Rightarrow> int \<Rightarrow> ('t, 'd) frame" where
  "loc_slice self i j = filter (\<lambda>row. i \<le> fst row \<and> fst row \<le> j) self"

text \<open>\<open>Series.max()\<close> and \<open>Series.min()\<close>; on an empty column they give \<open>NaT\<close>, here \<open>None\<close>.\<close>

definition series_max :: "int list \<Rightarrow> int option" where
  "series_max xs = (case xs of [] \<Rightarrow> None | x # rest \<Rightarrow> Some (fold max rest x))"

definition series_min :: "int list \<Rightarrow> int option" where
  "series_min xs = (case xs of [] \<Rightarrow> None | x # rest \<Rightarrow> Some (fold min rest x))"

definition total_time :: "dt_frame \<Rightarrow> int option" where
  "total_time rows =
     (case (series_max (map (\<lambda>row. end_time (snd row)) rows),
            series_min (map (\<lambda>row. start_time (snd row)) rows)) of
        (Some e, Some s) \<Rightarrow> Some (e - s)
      | _ \<Rightarrow> None)"

text \<open>
  The inner loop over \<open>bouts.index[::-1]\<close> for one start \<open>i\<close>: \<open>Inr (Some j)\<close> when
  the period \<open>[i, j]\<close> is accepted, \<open>Inr None\<close> when the loop ends or breaks without
  accepting.  The quotient of two timedeltas is a float and is modelled as a rational;
  a zero \<open>total_time\<close> raises \<open>ZeroDivisionError\<close>, and a \<open>NaT\<close> one gives \<open>nan\<close>,
  which fails the comparison with \<open>frac\<close>.
\<close>

fun scan_j :: "dt_frame \<Rightarrow> dt_frame \<Rightarrow> rat \<Rightarrow> int \<Rightarrow> int \<Rightarrow> int \<Rightarrow> int list
                 \<Rightarrow> error + int option" where
  "scan_j self bouts fraction minimum_time i k [] = Inr None"
| "scan_j self bouts fraction minimum_time i k (j # js) =
     (if j < max i k then Inr None
      else
        let time_in_states =
              max (sum_list (map (\<lambda>row. duration (snd row)) (loc_slice bouts i j))) 0
        in if time_in_states < minimum_time then Inr None
           else
             (case total_time (loc_slice self i j) of
                None \<Rightarrow> scan_j self bouts fraction minimum_time i k js
              | Some total_span \<Rightarrow>
                  if total_span = 0 then Inl ZeroDivisionError
                  else if of_int time_in_states / of_int total_span \<ge> fraction then Inr (Some j)
                  else scan_j self bouts fraction minimum_time i k js))"

text \<open>
  The outer loop over \<open>bouts.index\<close>, carrying \<open>k\<close> and the accepted periods.  It
  records a period as its pair of labels \<open>(i, j)\<close>; \<open>get_consolidated\<close> returns the
  slices \<open>self.loc[i:j]\<close> of these pairs.
\<close>

fun scan_i :: "dt_frame \<Rightarrow> dt_frame \<Rightarrow> rat \<Rightarrow> int \<Rightarrow> int list \<Rightarrow> int \<Rightarrow> (int \<times> int) list
                 \<Rightarrow> error + (int \<times> int) list" where
  "scan_i self bouts fraction minimum_time [] k matches = Inr matches"
| "scan_i self bouts fraction minimum_time (i # rest) k matches =
     (if i \<le> k then scan_i self bouts fraction minimum_time rest k matches
      else
        (case scan_j self bouts fraction minimum_time i k (rev (map fst bouts)) of
           Inl e \<Rightarrow> Inl e
         | Inr None \<Rightarrow> scan_i self bouts fraction minimum_time rest k matches
         | Inr (Some j) \<Rightarrow> scan_i self bouts fraction minimum_time rest j (matches @ [(i, j)])))"

definition consolidated_ranges :: "dt_frame \<Rightarrow> string list \<Rightarrow> rat \<Rightarrow> int
                                     \<Rightarrow> error + (int \<times> int) list" where
  "consolidated_ranges self states fraction minimum_time =
     (if \<not> sorted (map (\<lambda>row. start_time (snd row)) self) then Inl AssertionError
      else
        let bouts = keep_states self states
        in (case map fst bouts of
              [] \<Rightarrow> Inr []
            | l # ls \<Rightarrow>
                scan_i self bouts fraction minimum_time (l # ls) (fold min ls l - 1) []))"

definition get_consolidated :: "dt_frame \<Rightarrow> string list \<Rightarrow> rat \<Rightarrow> int
                                  \<Rightarrow> error + dt_frame list" where
  "get_consolidated self states fraction minimum_time =
     (case consolidated_ranges self states fraction minimum_time of
        Inl e \<Rightarrow> Inl e
      | Inr ranges \<Rightarrow> Inr (map (\<lambda>(i, j). loc_slice self i j) ranges))"



section \<open>Properties of the time queries\<close>

lemma length_assign_mask:
  "length msk = length arr \<Longrightarrow> length (assign_mask arr msk v) = length arr"
  by (simp add: assign_mask_def)

lemma length_times_in_bout: "length (times_in_bout ts b) = length ts"
  by (simp add: times_in_bout_def)

lemma nth_assign_mask:
  "length msk = length arr \<Longrightarrow> p < length arr \<Longrightarrow>
   assign_mask arr msk v ! p = (if msk ! p then v else arr ! p)"
  by (simp add: assign_mask_def)




lemma covers_time_loop_length:
  "length covered = length ts \<Longrightarrow> length (covers_time_loop self ts covered) = length ts"
  by (induction self arbitrary: covered) (simp_all add: length_assign_mask length_times_in_bout)

lemma covers_time_loop_nth:
  "length covered = length ts \<Longrightarrow> p < length ts \<Longrightarrow>
   covers_time_loop self ts covered ! p =
     (covered ! p \<or> (\<exists>row \<in> set self. contains_time (ts ! p) row))"
proof (induction self arbitrary: covered)
  case Nil
  then show ?case by simp
next
  case (Cons row rest)
  let ?covered = "assign_mask covered (times_in_bout ts (snd row)) True"
  have len: "length ?covered = length ts"
    using Cons.prems(1) by (simp add: length_assign_mask length_times_in_bout)
  have here: "?covered ! p = (covered ! p \<or> contains_time (ts ! p) row)"
    using Cons.prems
    by (auto simp add: nth_assign_mask length_times_in_bout times_in_bout_def contains_time_def)
  show ?case
    using Cons.IH [OF len Cons.prems(2)] here by auto
qed



text \<open>
  Claim C6.  Coverage is closed on both ends: when the frame contains a bout \<open>[s, e]\<close>
  (with \<open>s \<le> e\<close>, the invariant of a bout), \<open>covers_time [s]\<close> and \<open>covers_time [e]\<close>
  are both true, and so is every position of a longer query array that holds \<open>s\<close> or \<open>e\<close>.
\<close>

theorem covers_time_closed_interval:
  assumes "row \<in> set self" and "start_time (snd row) \<le> end_time (snd row)"
  shows "covers_time self [start_time (snd row)] = [True]
         \<and> covers_time self [end_time (snd row)] = [True]
         \<and> (\<forall>p < length ts.
              ts ! p = start_time (snd row) \<or> ts ! p = end_time (snd row)
              \<longrightarrow> covers_time self ts ! p)"
proof -
  have one: "covers_time self [t] = [True]" if "contains_time t row" for t
  proof -
    have "length (covers_time self [t]) = 1"
      by (simp add: covers_time_def covers_time_loop_length)
    moreover have "covers_time self [t] ! 0"
      using that assms(1) by (auto simp add: covers_time_def covers_time_loop_nth)
    ultimately show ?thesis
      by (cases "covers_time self [t]") auto
  qed
  have s: "contains_time (start_time (snd row)) row" and e: "contains_time (end_time (snd row)) row"
    using assms(2) by (simp_all add: contains_time_def)
  have many: "covers_time self ts ! p"
    if "p < length ts" "ts ! p = start_time (snd row) \<or> ts ! p = end_time (snd row)" for p
    using that assms(1) s e by (auto simp add: covers_time_def covers_time_loop_nth)
  show ?thesis
    using one [OF s] one [OF e] many by blast
qed

theorem covers_time_closed_interval_witness:
  "covers_time [(0, \<lparr>state = ''A'', start_time = 0::int, end_time = 10, duration = 10::int\<rparr>),
                (1, \<lparr>state = ''B'', start_time = 15, end_time = 20, duration = 5\<rparr>)] [15] = [True]
   \<and> covers_time [(0, \<lparr>state = ''A'', start_time = 0::int, end_time = 10, duration = 10::int\<rparr>),
                  (1, \<lparr>state = ''B'', start_time = 15, end_time = 20, duration = 5\<rparr>)] [20] = [True]
   \<and> covers_time [(0, \<lparr>state = ''A'', start_time = 0::int, end_time = 10, duration = 10::int\<rparr>),
                  (1, \<lparr>state = ''B'', start_time = 15, end_time = 20, duration = 5\<rparr>)] [12, 20] ! 1"
  using covers_time_closed_interval
    [of "(1, \<lparr>state = ''B'', start_time = 15::int, end_time = 20, duration = 5::int\<rparr>)"
        "[(0, \<lparr>state = ''A'', start_time = 0::int, end_time = 10, duration = 10::int\<rparr>),
          (1, \<lparr>state = ''B'', start_time = 15, end_time = 20, duration = 5\<rparr>)]" "[12, 20]"]
  by simp

section \<open>Properties of the filters\<close>

lemma loc_mask_Cons:
  "loc_mask (x # xs) (c # cs) = (if c then x # loc_mask xs cs else loc_mask xs cs)"
  by (simp add: loc_mask_def)

lemma loc_mask_Nil: "loc_mask [] cs = []"
  by (simp add: loc_mask_def)

lemma loc_mask_subseq: "subseq (loc_mask xs cs) xs"
proof (induction xs arbitrary: cs)
  case Nil
  then show ?case by (simp add: loc_mask_Nil)
next
  case (Cons x xs)
  show ?case
  proof (cases cs)
    case Nil
    then show ?thesis by (simp add: loc_mask_def)
  next
    case (Cons c cs')
    then show ?thesis using Cons.IH [of cs'] by (auto simp add: loc_mask_Cons intro: list_emb_Cons)
  qed
qed


lemma strict_sorted_eq_filter_upt:
  assumes "sorted_wrt (<) ps" and "\<forall>p \<in> set ps. p < n"
  shows "ps = filter (\<lambda>p. p \<in> set ps) [0..<n]"
proof (rule sorted_distinct_set_unique)
  show "sorted ps" using assms(1) by (simp add: strict_sorted_iff)
  show "distinct ps" using assms(1) by (simp add: strict_sorted_iff)
  show "sorted (filter (\<lambda>p. p \<in> set ps) [0..<n])" by (simp add: sorted_wrt_filter)
  show "distinct (filter (\<lambda>p. p \<in> set ps) [0..<n])" by simp
  show "set ps = set (filter (\<lambda>p. p \<in> set ps) [0..<n])" using assms(2) by auto
qed

lemma map_nth_subseq:
  assumes "sorted_wrt (<) ps" and "\<forall>p \<in> set ps. p < length xs"
  shows "subseq (map (\<lambda>p. xs ! p) ps) xs"
proof -
  have "subseq (filter (\<lambda>p. p \<in> set ps) [0..<length xs]) [0..<length xs]"
    by simp
  then have "subseq (map (\<lambda>p. xs ! p) (filter (\<lambda>p. p \<in> set ps) [0..<length xs]))
                    (map (\<lambda>p. xs ! p) [0..<length xs])"
    by (rule subseq_map)
  then show ?thesis
    using strict_sorted_eq_filter_upt [OF assms] by (simp add: map_nth)
qed

lemma intersect1d_sorted: "sorted_wrt (<) (intersect1d a b)"
  by (simp add: intersect1d_def strict_sorted_iff)

lemma intersect1d_set: "set (intersect1d a b) = set a \<inter> set b"
  by (auto simp add: intersect1d_def)

lemma indexer_between_time_bound:
  "p \<in> set (indexer_between_time stamps s e) \<Longrightarrow> p < length stamps"
  by (simp add: indexer_between_time_def)

text \<open>
  Claim C10.  Each filter (\<open>keep_states\<close>, \<open>keep_longer\<close>, \<open>keep_first\<close>,
  \<open>keep_last\<close>, \<open>keep_between\<close>) returns a sub-sequence of the rows of its input:
  every returned row is a row of the input, with its index label and fields unchanged
  and in the original relative order.  The functions are pure, so the input frame is
  the same value after the call.
\<close>

theorem filters_return_subsequence:
  "subseq (keep_states self states) self
   \<and> subseq (keep_longer dself d) dself
   \<and> subseq (keep_first dself budget) dself
   \<and> subseq (keep_last dself budget) dself
   \<and> (\<exists>kept. keep_between dself start_micros end_micros = Inr kept \<and> subseq kept dself)"
proof -
  let ?keep = "intersect1d
      (indexer_between_time (map (\<lambda>row. start_time (snd row)) dself) start_micros end_micros)
      (indexer_between_time (map (\<lambda>row. end_time (snd row)) dself) start_micros end_micros)"
  have bound: "\<forall>p \<in> set ?keep. p < length dself"
    using indexer_between_time_bound [of _ "map (\<lambda>row. start_time (snd row)) dself"]
    by (auto simp add: intersect1d_set)
  have "keep_between dself start_micros end_micros = Inr (map (\<lambda>p. dself ! p) ?keep)"
    using bound by (simp add: keep_between_def iloc_def)
  moreover have "subseq (map (\<lambda>p. dself ! p) ?keep) dself"
    using intersect1d_sorted bound by (rule map_nth_subseq)
  ultimately show ?thesis
    by (simp add: keep_states_def keep_longer_def keep_first_def keep_last_def loc_mask_subseq)
qed









section \<open>Properties of gap detection\<close>

lemma zip_tl_nth: "zip xs (tl xs) = map (\<lambda>i. (xs ! i, xs ! Suc i)) [0..<length xs - 1]"
  by (rule nth_equalityI) (simp_all add: nth_tl)

lemma concat_map_if: "concat (map (\<lambda>i. if P i then [f i] else []) idx) = map f (filter P idx)"
  by (induction idx) simp_all

lemma get_gaps_eq_spec: "get_gaps self tolerance = get_gaps_spec self tolerance"
proof -
  let ?P = "\<lambda>i. start_time (snd (self ! Suc i)) - end_time (snd (self ! i)) > tolerance"
  let ?f = "\<lambda>i. gap_between (snd (self ! i), snd (self ! Suc i))"
  have "get_gaps self tolerance
        = concat (map (\<lambda>i. if ?P i then [?f i] else []) [0..<length self - 1])"
    by (simp add: get_gaps_def gap_between_def Let_def cong: if_cong)
  also have "\<dots> = map ?f (filter ?P [0..<length self - 1])"
    by (rule concat_map_if)
  also have "\<dots> = get_gaps_spec self tolerance"
  proof -
    let ?bs = "map snd self"
    let ?Q = "\<lambda>i. start_time (?bs ! Suc i) - end_time (?bs ! i) > tolerance"
    let ?g = "\<lambda>i. gap_between (?bs ! i, ?bs ! Suc i)"
    have flt: "filter ?Q [0..<length self - 1] = filter ?P [0..<length self - 1]"
      by (rule filter_cong) auto
    have "map ?g (filter ?P [0..<length self - 1]) = map ?f (filter ?P [0..<length self - 1])"
      by (rule map_cong) auto
    with flt have "map ?g (filter ?Q [0..<length self - 1]) = map ?f (filter ?P [0..<length self - 1])"
      by simp
    then show ?thesis
      by (simp add: get_gaps_spec_def zip_tl_nth filter_map comp_def)
  qed
  finally show ?thesis .
qed

text \<open>
  Claim C8.  For each consecutive pair of bouts in sequence order \<open>get_gaps\<close> reports
  \<open>gap = next.start_time - current.end_time\<close>, as the record with
  \<open>start_time = current.end_time\<close>, \<open>end_time = next.start_time\<close> and
  \<open>duration = gap\<close>, if and only if the gap is strictly greater than the tolerance;
  with a non-negative tolerance no reported gap is negative or zero.  For the bouts
  \<open>[(A,0,10),(B,15,20)]\<close> (seconds, in nanoseconds) and tolerance 0 it returns the
  one gap from 10 to 15 of duration 5.
\<close>

theorem get_gaps_reports_exceeding_gaps:
  "get_gaps self tolerance = get_gaps_spec self tolerance
   \<and> (0 \<le> tolerance \<longrightarrow> (\<forall>g \<in> set (get_gaps self tolerance). 0 < gap_duration g))
   \<and> get_gaps [(0, \<lparr>state = ''A'', start_time = 0, end_time = 10000000000,
                      duration = 10000000000\<rparr>),
                (1, \<lparr>state = ''B'', start_time = 15000000000, end_time = 20000000000,
                      duration = 5000000000\<rparr>)] 0
       = [\<lparr>gap_start_time = 10000000000, gap_end_time = 15000000000,
            gap_duration = 5000000000\<rparr>]"
proof (intro conjI)
  show "get_gaps self tolerance = get_gaps_spec self tolerance"
    by (rule get_gaps_eq_spec)
  show "0 \<le> tolerance \<longrightarrow> (\<forall>g \<in> set (get_gaps self tolerance). 0 < gap_duration g)"
    by (auto simp add: get_gaps_eq_spec get_gaps_spec_def gap_between_def)
  show "get_gaps [(0, \<lparr>state = ''A'', start_time = 0, end_time = 10000000000,
                      duration = 10000000000\<rparr>),
                (1, \<lparr>state = ''B'', start_time = 15000000000, end_time = 20000000000,
                      duration = 5000000000\<rparr>)] 0
       = [\<lparr>gap_start_time = 10000000000, gap_end_time = 15000000000,
            gap_duration = 5000000000\<rparr>]"
    by (simp add: get_gaps_def)
qed

theorem get_gaps_reports_exceeding_gaps_witness:
  "(0::int) \<le> 2
   \<and> get_gaps [(0, \<lparr>state = ''A'', start_time = 0, end_time = 10, duration = 10\<rparr>),
                (1, \<lparr>state = ''B'', start_time = 12, end_time = 20, duration = 8\<rparr>),
                (2, \<lparr>state = ''A'', start_time = 18, end_time = 30, duration = 12\<rparr>),
                (3, \<lparr>state = ''B'', start_time = 35, end_time = 40, duration = 5\<rparr>)] 2
       = [\<lparr>gap_start_time = 30, gap_end_time = 35, gap_duration = 5\<rparr>]
   \<and> 0 < gap_duration \<lparr>gap_start_time = 30, gap_end_time = 35, gap_duration = 5\<rparr>"
  using get_gaps_reports_exceeding_gaps
    [of "[(0, \<lparr>state = ''A'', start_time = 0, end_time = 10, duration = 10\<rparr>),
          (1, \<lparr>state = ''B'', start_time = 12, end_time = 20, duration = 8\<rparr>),
          (2, \<lparr>state = ''A'', start_time = 18, end_time = 30, duration = 12\<rparr>),
          (3, \<lparr>state = ''B'', start_time = 35, end_time = 40, duration = 5\<rparr>)]" 2]
  by (simp add: get_gaps_spec_def gap_between_def)

section \<open>Properties of gap filling\<close>




lemma interleaved_Cons:
  "\<exists>more. interleaved (b # rest) tolerance fs = b # more"
  by (cases rest) simp_all











section \<open>Properties of validation\<close>

text \<open>
  Claim C4 (amended).  Validating a frame with \<open>_validate\<close> requires the four
  columns \<open>state\<close>, \<open>start_time\<close>, \<open>end_time\<close> and \<open>duration\<close>: it fails with
  \<open>AttributeError\<close> exactly when one of them is missing, and does not fail when all
  four are present.  Constructing a \<open>Hypnogram\<close> does not validate: it accepts every
  set of columns.
\<close>

theorem validate_requires_columns:
  "(validate columns = Inl AttributeError \<longleftrightarrow> \<not> set required_columns \<subseteq> set columns)
   \<and> (set required_columns \<subseteq> set columns \<longrightarrow> validate columns = Inr ())
   \<and> Hypnogram_init columns = Inr columns"
  by (auto simp add: validate_def Hypnogram_init_def)

theorem validate_requires_columns_witness:
  "validate [''epoch'', ''state'', ''start_time'', ''end_time''] = Inl AttributeError
   \<and> validate [''state'', ''end_time'', ''start_time'', ''duration''] = Inr ()"
  using validate_requires_columns [of "[''epoch'', ''state'', ''start_time'', ''end_time'']"]
    validate_requires_columns [of "[''state'', ''end_time'', ''start_time'', ''duration'']"]
  by (simp add: required_columns_def)

theorem construction_without_duration_counterexample:
  "Hypnogram_init [''state'', ''start_time'', ''end_time'']
     = Inr [''state'', ''start_time'', ''end_time'']
   \<and> validate [''state'', ''start_time'', ''end_time''] = Inl AttributeError"
  by (simp add: Hypnogram_init_def validate_def required_columns_def)

section \<open>Properties of the consolidation search\<close>




text \<open>
  Claim C1.  For the sorted frame \<open>[(A,0,10),(B,10,10.5),(A,10.5,20)]\<close> (seconds, in
  nanoseconds), \<open>get_consolidated\<close> with states \<open>{A}\<close>, \<open>frac = 0.8\<close> and
  \<open>minimum_time = 5s\<close> returns exactly one period, the slice of the whole frame for
  the labels \<open>[0, 2]\<close>, which spans 0s to 20s, and not the two ranges \<open>[0,10]\<close> and
  \<open>[10.5,20]\<close>.
\<close>

theorem get_consolidated_example:
  "get_consolidated
     [(0, \<lparr>state = ''A'', start_time = 0, end_time = 10000000000, duration = 10000000000\<rparr>),
      (1, \<lparr>state = ''B'', start_time = 10000000000, end_time = 10500000000,
            duration = 500000000\<rparr>),
      (2, \<lparr>state = ''A'', start_time = 10500000000, end_time = 20000000000,
            duration = 9500000000\<rparr>)]
     [''A''] (4 / 5) 5000000000
   = Inr [[(0, \<lparr>state = ''A'', start_time = 0, end_time = 10000000000,
                  duration = 10000000000\<rparr>),
           (1, \<lparr>state = ''B'', start_time = 10000000000, end_time = 10500000000,
                  duration = 500000000\<rparr>),
           (2, \<lparr>state = ''A'', start_time = 10500000000, end_time = 20000000000,
                  duration = 9500000000\<rparr>)]]
   \<and> consolidated_ranges
     [(0, \<lparr>state = ''A'', start_time = 0, end_time = 10000000000, duration = 10000000000\<rparr>),
      (1, \<lparr>state = ''B'', start_time = 10000000000, end_time = 10500000000,
            duration = 500000000\<rparr>),
      (2, \<lparr>state = ''A'', start_time = 10500000000, end_time = 20000000000,
            duration = 9500000000\<rparr>)]
     [''A''] (4 / 5) 5000000000
   = Inr [(0, 2)]"
  by (simp add: get_consolidated_def consolidated_ranges_def keep_states_def loc_mask_def
        loc_slice_def total_time_def series_max_def series_min_def)



text \<open>
  Claim C3.  \<open>get_consolidated\<close> checks that the frame is sorted by \<open>start_time\<close>:
  on every frame whose \<open>start_time\<close> column is not non-decreasing it fails with the
  error of its \<open>assert\<close> instead of returning periods.
\<close>

theorem get_consolidated_requires_sorted:
  assumes "\<not> sorted (map (\<lambda>row. start_time (snd row)) self)"
  shows "get_consolidated self states fraction minimum_time = Inl AssertionError"
  using assms by (simp add: get_consolidated_def consolidated_ranges_def)

theorem get_consolidated_requires_sorted_witness:
  "\<not> sorted [10, 0::int]
   \<and> get_consolidated
       [(0, \<lparr>state = ''A'', start_time = 10, end_time = 20, duration = 10\<rparr>),
        (1, \<lparr>state = ''A'', start_time = 0, end_time = 10, duration = 10\<rparr>)]
       [''A''] (4 / 5) 5
     = Inl AssertionError"
proof -
  let ?self = "[(0, \<lparr>state = ''A'', start_time = 10, end_time = 20, duration = 10\<rparr>),
                (1, \<lparr>state = ''A'', start_time = 0, end_time = 10, duration = 10\<rparr>)] :: dt_frame"
  have h: "\<not> sorted (map (\<lambda>row. start_time (snd row)) ?self)" by simp
  show ?thesis
    using get_consolidated_requires_sorted [OF h, of "[''A'']" "4 / 5" 5] by simp
qed

end
